theory Spec2Isabelle
  imports Complex_Main
begin

section \<open>Deep research orchestrator and prompt trimming\<close>

text \<open>
  A shallow embedding of \<^verbatim>\<open>src/deep-research.ts\<close> (the recursive research driver) and of
  \<^verbatim>\<open>trimPrompt\<close> in \<^verbatim>\<open>src/ai/providers.ts\<close>.

  Conventions.
  \<^item> A JavaScript string is a \<^typ>\<open>string\<close>; \<^term>\<open>length\<close> stands for
    \<^verbatim>\<open>.length\<close> and \<^term>\<open>take\<close> for \<^verbatim>\<open>.slice(0, n)\<close> with \<^verbatim>\<open>n \<ge> 0\<close>.
  \<^item> A JavaScript number that the program uses as a count is an \<^typ>\<open>int\<close>.
  \<^item> A rejected promise or a thrown exception is \<^term>\<open>Inl Rejected\<close>; a fulfilled one is
    \<^term>\<open>Inr v\<close>.
  \<^item> A character stands for one UTF-16 code unit; no property below depends on which
    characters there are.
  \<^item> Everything outside the program (the token encoder, the language model behind
    \<^verbatim>\<open>generateObject\<close>, the child process behind \<^verbatim>\<open>exec\<close>) and the text splitter of
    \<^verbatim>\<open>./text-splitter\<close> is a parameter: the theorems hold for every choice of them, or
    name the property of the parameter they need. A parameter answers as a function of
    the request it is given.
\<close>

subsection \<open>Text budgeter: \<^verbatim>\<open>trimPrompt\<close>\<close>

definition MinChunkSize :: int where
  "MinChunkSize = 140"

text \<open>\<^verbatim>\<open>splitter.splitText(prompt)[0] ?? ''\<close>: the first chunk, or the empty string when
  the splitter returned no chunk.\<close>

definition first_chunk :: "string list \<Rightarrow> string" where
  "first_chunk chunks = (case chunks of [] \<Rightarrow> [] | c # _ \<Rightarrow> c)"

text \<open>
  \<^verbatim>\<open>trimPrompt(prompt, contextSize)\<close>. The parameter \<open>encode\<close> is
  \<^verbatim>\<open>encoder.encode(prompt).length\<close>; \<open>splitText chunkSize prompt\<close> is
  \<^verbatim>\<open>new RecursiveCharacterTextSplitter({chunkSize, chunkOverlap: 0}).splitText(prompt)\<close>.
  The recursion is not bounded by the code alone, so the function is partial: \<^term>\<open>None\<close>
  is a call that never returns.
\<close>

partial_function (option) trimPrompt ::
  "(string \<Rightarrow> nat) \<Rightarrow> (int \<Rightarrow> string \<Rightarrow> string list) \<Rightarrow> string \<Rightarrow> int \<Rightarrow> string option" where
  "trimPrompt encode splitText prompt contextSize =
     (if prompt = [] then Some []
      else
        let len = int (encode prompt) in
        if len \<le> contextSize then Some prompt
        else
          let overflowTokens = len - contextSize;
              chunkSize = int (length prompt) - overflowTokens * 3
          in
          if chunkSize < MinChunkSize then Some (take (nat MinChunkSize) prompt)
          else
            let trimmedPrompt = first_chunk (splitText chunkSize prompt) in
            if length trimmedPrompt = length prompt
            then trimPrompt encode splitText (take (nat chunkSize) prompt) contextSize
            else trimPrompt encode splitText trimmedPrompt contextSize)"

declare trimPrompt.simps [code]

text \<open>
  One pass through the body of \<^verbatim>\<open>trimPrompt\<close>: either the value it returns at once, or
  the argument of the recursive call it makes. Lemma \<open>trimPrompt_unfold\<close> below ties it to
  \<^const>\<open>trimPrompt\<close>.
\<close>

datatype trim_step = Return string | Retry string

definition trimPrompt_step ::
  "(string \<Rightarrow> nat) \<Rightarrow> (int \<Rightarrow> string \<Rightarrow> string list) \<Rightarrow> string \<Rightarrow> int \<Rightarrow> trim_step" where
  "trimPrompt_step encode splitText prompt contextSize =
     (if prompt = [] then Return []
      else
        let len = int (encode prompt) in
        if len \<le> contextSize then Return prompt
        else
          let overflowTokens = len - contextSize;
              chunkSize = int (length prompt) - overflowTokens * 3
          in
          if chunkSize < MinChunkSize then Return (take (nat MinChunkSize) prompt)
          else
            let trimmedPrompt = first_chunk (splitText chunkSize prompt) in
            if length trimmedPrompt = length prompt
            then Retry (take (nat chunkSize) prompt)
            else Retry trimmedPrompt)"

text \<open>
  What the theorems ask of the splitter, on the calls \<^verbatim>\<open>trimPrompt\<close> makes (a chunk size of
  at least \<^const>\<open>MinChunkSize\<close>, smaller than the text): its first chunk is no longer than
  the text it was cut from (\<open>chunks_within\<close>), and it is not empty (\<open>yields_chunk\<close>).
\<close>

definition chunks_within :: "(int \<Rightarrow> string \<Rightarrow> string list) \<Rightarrow> bool" where
  "chunks_within splitText \<longleftrightarrow>
     (\<forall>c t. MinChunkSize \<le> c \<longrightarrow> c < int (length t) \<longrightarrow>
        length (first_chunk (splitText c t)) \<le> length t)"


text \<open>A splitter and an encoder to run the definitions on: raw character cuts of the chunk
  size, and one token for every two characters.\<close>

definition raw_cut :: "int \<Rightarrow> string \<Rightarrow> string list" where
  "raw_cut chunkSize t = (if t = [] then [] else [take (nat chunkSize) t, drop (nat chunkSize) t])"

definition two_chars_per_token :: "string \<Rightarrow> nat" where
  "two_chars_per_token t = (length t + 1) div 2"

subsection \<open>Data of \<^verbatim>\<open>deep-research.ts\<close>\<close>

text \<open>Every failure (a rejected promise, a thrown exception) is the one value
  \<open>Rejected\<close>: the program never looks at what was thrown.\<close>

datatype error = Rejected

text \<open>A retrieved page, \<^verbatim>\<open>{ content, metadata: { sourceURL } }\<close>.\<close>

record content_item =
  content :: string
  sourceURL :: string

text \<open>
  What \<^verbatim>\<open>JSON.parse(stdout)\<close> may give: an array of well-formed pages, or any other JSON
  value (on which \<^verbatim>\<open>result.map(item => item.metadata.sourceURL)\<close> throws).
\<close>

datatype crawl_value = Items "content_item list" | NotItems

text \<open>The child process: \<^verbatim>\<open>execAsync\<close> rejects, or its standard output does not parse,
  or it parses to a value.\<close>

datatype exec_outcome = ExecError | Unparseable | Parsed crawl_value

text \<open>An element of \<^verbatim>\<open>res.object.queries\<close>: an object or a bare string
  (\<^verbatim>\<open>z.union\<close>).\<close>

datatype raw_query = QueryObject string string | QueryString string

record serp_query =
  query :: string
  researchGoal :: string

text \<open>The value of \<^verbatim>\<open>processSerpResult\<close>, \<^verbatim>\<open>{ learnings, followUpQuestions }\<close>; its
  first field is named \<open>new_learnings\<close> here, apart from the field of
  \<^verbatim>\<open>ResearchResult\<close>.\<close>

record serp_result =
  new_learnings :: "string list"
  followUpQuestions :: "string list"

record research_result =
  learnings :: "string list"
  visitedUrls :: "string list"

text \<open>
  The world around the program.
  \<^item> \<open>encoder\<close>, \<open>splitter\<close>: the parameters of \<^const>\<open>trimPrompt\<close>.
  \<^item> \<open>generate_queries topic numQueries learnings\<close>: the \<^verbatim>\<open>generateObject\<close> call of
    \<^verbatim>\<open>generateSerpQueries\<close>, whose prompt is built from these three values; its answer is
    \<^verbatim>\<open>res.object.queries\<close>.
  \<^item> \<open>generate_learnings topic contents numLearnings numFollowUpQuestions\<close>: the
    \<^verbatim>\<open>generateObject\<close> call of \<^verbatim>\<open>processSerpResult\<close>; its answer is
    \<^verbatim>\<open>res.object.learnings\<close> and the optional \<^verbatim>\<open>res.object.followUpQuestions\<close>.
  \<^item> \<open>exec_crawl command\<close>: running the shell command and parsing its output.
\<close>

record env =
  encoder :: "string \<Rightarrow> nat"
  splitter :: "int \<Rightarrow> string \<Rightarrow> string list"
  generate_queries :: "string \<Rightarrow> int \<Rightarrow> string list \<Rightarrow> error + raw_query list"
  generate_learnings ::
    "string \<Rightarrow> string list \<Rightarrow> int \<Rightarrow> int \<Rightarrow> error + (string list \<times> string list option)"
  exec_crawl :: "string \<Rightarrow> exec_outcome"


subsection \<open>Content retriever: \<^verbatim>\<open>crawlWebsite\<close>\<close>

definition dquote :: char where
  "dquote = CHR 0x22"

text \<open>The template literal
  \<^verbatim>\<open>python3 duckduckgo-crawler/crawl.py "${query}"\<close>.\<close>

definition crawl_command :: "string \<Rightarrow> string" where
  "crawl_command topic = ''python3 duckduckgo-crawler/crawl.py '' @ [dquote] @ topic @ [dquote]"

text \<open>Both \<^verbatim>\<open>catch\<close> blocks return \<^verbatim>\<open>[]\<close>; a parsed value is returned as it is.\<close>

definition crawlWebsite :: "env \<Rightarrow> string \<Rightarrow> crawl_value" where
  "crawlWebsite env topic =
     (case exec_crawl env (crawl_command topic) of
        ExecError \<Rightarrow> Items []
      | Unparseable \<Rightarrow> Items []
      | Parsed v \<Rightarrow> v)"

subsection \<open>Query planner: \<^verbatim>\<open>generateSerpQueries\<close>\<close>

text \<open>\<^verbatim>\<open>xs.slice(0, n)\<close>: a negative \<open>n\<close> counts from the end.\<close>

definition slice0 :: "int \<Rightarrow> 'a list \<Rightarrow> 'a list" where
  "slice0 n xs = (if n < 0 then take (nat (int (length xs) + n)) xs else take (nat n) xs)"

fun as_serp_query :: "raw_query \<Rightarrow> serp_query" where
  "as_serp_query (QueryString q) =
     \<lparr>query = q,
      researchGoal = ''Explore this query to gather relevant information for the research topic.''\<rparr>"
| "as_serp_query (QueryObject q goal) = \<lparr>query = q, researchGoal = goal\<rparr>"

definition generateSerpQueries ::
  "env \<Rightarrow> string \<Rightarrow> int \<Rightarrow> string list \<Rightarrow> error + serp_query list" where
  "generateSerpQueries env topic numQueries priorLearnings =
     (case generate_queries env topic numQueries priorLearnings of
        Inl e \<Rightarrow> Inl e
      | Inr queries \<Rightarrow> Inr (slice0 numQueries (map as_serp_query queries)))"

subsection \<open>Result synthesizer: \<^verbatim>\<open>processSerpResult\<close>\<close>

text \<open>
  Every page is trimmed to 25000 tokens first; a \<^verbatim>\<open>trimPrompt\<close> that does not return
  overflows the stack, which rejects the promise. \<^verbatim>\<open>res.object.followUpQuestions || []\<close>
  turns an absent list into the empty one.
\<close>

definition processSerpResult ::
  "env \<Rightarrow> string \<Rightarrow> content_item list \<Rightarrow> int \<Rightarrow> int \<Rightarrow> error + serp_result" where
  "processSerpResult env topic result numLearnings numFollowUpQuestions =
     (case those (map (\<lambda>item. trimPrompt (encoder env) (splitter env) (content item) 25000)
                   result) of
        None \<Rightarrow> Inl Rejected
      | Some contents \<Rightarrow>
          (case generate_learnings env topic contents numLearnings numFollowUpQuestions of
             Inl e \<Rightarrow> Inl e
           | Inr (ls, followUps) \<Rightarrow>
               Inr \<lparr>new_learnings = ls,
                    followUpQuestions = (case followUps of None \<Rightarrow> [] | Some qs \<Rightarrow> qs)\<rparr>))"

subsection \<open>Research orchestrator: \<^verbatim>\<open>deepResearch\<close>\<close>

text \<open>\<^verbatim>\<open>[...new Set(xs)]\<close>: the first occurrence of every element, in order.\<close>

definition dedupe :: "'a list \<Rightarrow> 'a list" where
  "dedupe xs = fold (\<lambda>x seen. if x \<in> set seen then seen else seen @ [x]) xs []"

text \<open>\<^verbatim>\<open>await Promise.all(...)\<close>: rejected as soon as one promise is.\<close>

fun promise_all :: "(error + 'a) list \<Rightarrow> error + 'a list" where
  "promise_all [] = Inr []"
| "promise_all (p # ps) =
     (case p of
        Inl e \<Rightarrow> Inl e
      | Inr v \<Rightarrow> (case promise_all ps of Inl e \<Rightarrow> Inl e | Inr vs \<Rightarrow> Inr (v # vs)))"

definition js_whitespace :: "char \<Rightarrow> bool" where
  "js_whitespace c \<longleftrightarrow> c \<in> {CHR '' '', CHR 0x09, CHR 0x0A, CHR 0x0B, CHR 0x0C, CHR 0x0D}"

definition js_trim :: "string \<Rightarrow> string" where
  "js_trim s = rev (dropWhile js_whitespace (rev (dropWhile js_whitespace s)))"

text \<open>The template literal of \<^verbatim>\<open>nextQuery\<close>, with the indentation of the source, trimmed.\<close>

definition nextQuery :: "serp_query \<Rightarrow> serp_result \<Rightarrow> string" where
  "nextQuery serpQuery newLearnings =
     js_trim ([CHR 0x0A] @ ''            Previous research goal: '' @ researchGoal serpQuery
              @ [CHR 0x0A] @ ''            Follow-up research directions: ''
              @ concat (map (\<lambda>q. CHR 0x0A # q) (followUpQuestions newLearnings))
              @ [CHR 0x0A] @ ''          '')"

text \<open>\<^verbatim>\<open>Math.ceil(breadth / 2)\<close>.\<close>

definition newBreadth :: "int \<Rightarrow> int" where
  "newBreadth breadth = \<lceil>real_of_int breadth / 2\<rceil>"

text \<open>
  \<^verbatim>\<open>deepResearch\<close>. The parameters \<^verbatim>\<open>query\<close>, \<^verbatim>\<open>learnings\<close> and \<^verbatim>\<open>visitedUrls\<close>
  are \<open>topic\<close>, \<open>priorLearnings\<close> and \<open>priorUrls\<close> here (the names of the fields are taken).
  The function mapped over \<open>serpQueries\<close> is the body of one branch task:
  \<^item> a thrown exception inside \<^verbatim>\<open>try\<close> (the \<^verbatim>\<open>map\<close> over a value that is no list of pages,
    the awaited \<^verbatim>\<open>processSerpResult\<close>) is caught and gives the empty result;
  \<^item> the promise of the recursive call is returned, not awaited
    (\<^verbatim>\<open>return deepResearch({...})\<close>): the task has left its \<^verbatim>\<open>try\<close> block when that
    promise settles, so the \<^verbatim>\<open>catch\<close> block does not see a rejection of it, and the
    promise of the task is rejected with it.
  \<^verbatim>\<open>pLimit\<close> decides when a branch task starts, not what it returns; the scheduling is
  modelled apart, below.
\<close>

function deepResearch ::
  "env \<Rightarrow> string \<Rightarrow> int \<Rightarrow> int \<Rightarrow> string list \<Rightarrow> string list \<Rightarrow> error + research_result" where
  "deepResearch env topic breadth depth priorLearnings priorUrls =
     (case generateSerpQueries env topic breadth priorLearnings of
        Inl e \<Rightarrow> Inl e
      | Inr serpQueries \<Rightarrow>
          (case promise_all (map (\<lambda>serpQuery.
                  (case crawlWebsite env (query serpQuery) of
                     NotItems \<Rightarrow> Inr \<lparr>learnings = [], visitedUrls = []\<rparr>
                   | Items result \<Rightarrow>
                       let newUrls = map sourceURL result;
                           newDepth = depth - 1
                       in
                       (case processSerpResult env (query serpQuery) result 3 (newBreadth breadth) of
                          Inl e \<Rightarrow> Inr \<lparr>learnings = [], visitedUrls = []\<rparr>
                        | Inr newLearnings \<Rightarrow>
                            let allLearnings = priorLearnings @ new_learnings newLearnings;
                                allUrls = priorUrls @ newUrls
                            in
                            if newDepth > 0
                            then deepResearch env (nextQuery serpQuery newLearnings)
                                   (newBreadth breadth) newDepth allLearnings allUrls
                            else Inr \<lparr>learnings = allLearnings, visitedUrls = allUrls\<rparr>)))
                serpQueries) of
             Inl e \<Rightarrow> Inl e
           | Inr results \<Rightarrow>
               Inr \<lparr>learnings = dedupe (concat (map learnings results)),
                    visitedUrls = dedupe (concat (map visitedUrls results))\<rparr>))"
  by pat_completeness auto
termination
  by (relation "measure (\<lambda>(env, topic, breadth, depth, priorLearnings, priorUrls). nat depth)") auto

declare deepResearch.simps [simp del]

text \<open>
  One branch task, apart. \<open>branch_body\<close> is the \<^verbatim>\<open>try\<close> block up to its \<^verbatim>\<open>return\<close>: the
  exception caught (\<open>Failed\<close>), the result returned at once (\<open>Terminal\<close>), or the
  arguments of the recursive call (\<open>Recurse\<close>). \<open>branch\<close> is the value of the task. Lemma
  \<open>deepResearch_unfold\<close> shows that \<^const>\<open>deepResearch\<close> maps \<open>branch\<close> over the planned
  queries.
\<close>

datatype branch_step =
    Failed
  | Terminal research_result
  | Recurse string int int "string list" "string list"

definition branch_body ::
  "env \<Rightarrow> int \<Rightarrow> int \<Rightarrow> string list \<Rightarrow> string list \<Rightarrow> serp_query \<Rightarrow> branch_step" where
  "branch_body env breadth depth priorLearnings priorUrls serpQuery =
     (case crawlWebsite env (query serpQuery) of
        NotItems \<Rightarrow> Failed
      | Items result \<Rightarrow>
          let newUrls = map sourceURL result;
              newDepth = depth - 1
          in
          (case processSerpResult env (query serpQuery) result 3 (newBreadth breadth) of
             Inl e \<Rightarrow> Failed
           | Inr newLearnings \<Rightarrow>
               let allLearnings = priorLearnings @ new_learnings newLearnings;
                   allUrls = priorUrls @ newUrls
               in
               if newDepth > 0
               then Recurse (nextQuery serpQuery newLearnings) (newBreadth breadth) newDepth
                      allLearnings allUrls
               else Terminal \<lparr>learnings = allLearnings, visitedUrls = allUrls\<rparr>))"

definition branch ::
  "env \<Rightarrow> int \<Rightarrow> int \<Rightarrow> string list \<Rightarrow> string list \<Rightarrow> serp_query \<Rightarrow> error + research_result" where
  "branch env breadth depth priorLearnings priorUrls serpQuery =
     (case branch_body env breadth depth priorLearnings priorUrls serpQuery of
        Failed \<Rightarrow> Inr \<lparr>learnings = [], visitedUrls = []\<rparr>
      | Terminal r \<Rightarrow> Inr r
      | Recurse nextTopic childBreadth childDepth allLearnings allUrls \<Rightarrow>
          deepResearch env nextTopic childBreadth childDepth allLearnings allUrls)"




subsection \<open>Environments to run the program in\<close>

text \<open>\<open>steady_env\<close>: the planner always answers with the one query \<open>q\<close>, every retrieval
  finds one page, every synthesis one learning and one follow-up question.\<close>

definition steady_env :: env where
  "steady_env =
     \<lparr>encoder = two_chars_per_token,
      splitter = raw_cut,
      generate_queries = (\<lambda>topic numQueries priorLearnings. Inr [QueryString ''q'']),
      generate_learnings =
        (\<lambda>topic contents numLearnings numFollowUpQuestions. Inr ([''fact''], Some [''why''])),
      exec_crawl = (\<lambda>command. Parsed (Items [\<lparr>content = ''page'', sourceURL = ''http://a''\<rparr>]))\<rparr>"


text \<open>The planner answers the topic \<open>root\<close> only, and fails otherwise.\<close>

definition planner_down_below_env :: env where
  "planner_down_below_env =
     steady_env\<lparr>generate_queries :=
       (\<lambda>topic numQueries priorLearnings.
          if topic = ''root'' then Inr [QueryString ''q''] else Inl Rejected)\<rparr>"


text \<open>Every synthesis answers with four learnings, whatever number was asked for.\<close>

definition verbose_env :: env where
  "verbose_env =
     steady_env\<lparr>generate_learnings :=
       (\<lambda>topic contents numLearnings numFollowUpQuestions.
          Inr ([''a'', ''b'', ''c'', ''d''], None))\<rparr>"

definition q_goal :: serp_query where
  "q_goal = \<lparr>query = ''q'', researchGoal = ''g''\<rparr>"

subsection \<open>Scheduling of the branch tasks: \<^verbatim>\<open>pLimit\<close>\<close>
















subsection \<open>The shell's reading of the command\<close>










section \<open>Properties of the text budgeter\<close>

lemma trimPrompt_unfold:
  "trimPrompt encode splitText prompt contextSize =
     (case trimPrompt_step encode splitText prompt contextSize of
        Return r \<Rightarrow> Some r
      | Retry shorter \<Rightarrow> trimPrompt encode splitText shorter contextSize)"
  by (subst trimPrompt.simps) (simp add: trimPrompt_step_def Let_def)

lemma step_retry_facts:
  assumes "trimPrompt_step encode splitText prompt contextSize = Retry shorter"
  shows "\<exists>c. MinChunkSize \<le> c \<and> c < int (length prompt) \<and> prompt \<noteq> [] \<and>
           (shorter = take (nat c) prompt \<or>
            shorter = first_chunk (splitText c prompt) \<and> length shorter \<noteq> length prompt)"
proof -
  define c where "c = int (length prompt) - (int (encode prompt) - contextSize) * 3"
  from assms have over: "contextSize < int (encode prompt)" and ne: "prompt \<noteq> []"
    and c: "MinChunkSize \<le> c"
    and alt: "shorter = take (nat c) prompt \<or>
              shorter = first_chunk (splitText c prompt) \<and> length shorter \<noteq> length prompt"
    by (auto simp: trimPrompt_step_def Let_def c_def split: if_splits)
  from over have "c < int (length prompt)" by (simp add: c_def)
  with c ne alt show ?thesis by blast
qed

lemma step_retry_shorter:
  assumes "chunks_within splitText"
    and "trimPrompt_step encode splitText prompt contextSize = Retry shorter"
  shows "length shorter < length prompt"
proof -
  from step_retry_facts [OF assms(2)] obtain c
    where c: "MinChunkSize \<le> c" "c < int (length prompt)"
      and alt: "shorter = take (nat c) prompt \<or>
                shorter = first_chunk (splitText c prompt) \<and> length shorter \<noteq> length prompt"
    by blast
  from alt show ?thesis
  proof
    assume "shorter = take (nat c) prompt"
    with c show ?thesis by (simp add: MinChunkSize_def)
  next
    assume n: "shorter = first_chunk (splitText c prompt) \<and> length shorter \<noteq> length prompt"
    from assms(1) c have "length (first_chunk (splitText c prompt)) \<le> length prompt"
      unfolding chunks_within_def by blast
    with n show ?thesis by auto
  qed
qed



lemma trimPrompt_returns:
  assumes "chunks_within splitText"
  shows "\<exists>r. trimPrompt encode splitText prompt contextSize = Some r"
proof (induction prompt rule: length_induct)
  case (1 prompt)
  show ?case
  proof (cases "trimPrompt_step encode splitText prompt contextSize")
    case (Return r)
    then show ?thesis by (simp add: trimPrompt_unfold [of _ _ prompt])
  next
    case (Retry shorter)
    with assms have "length shorter < length prompt" by (rule step_retry_shorter)
    with 1 obtain r where "trimPrompt encode splitText shorter contextSize = Some r" by blast
    with Retry show ?thesis by (simp add: trimPrompt_unfold [of _ _ prompt])
  qed
qed

lemma trimPrompt_within_budget:
  assumes "int (encode prompt) \<le> contextSize"
  shows "trimPrompt encode splitText prompt contextSize = Some prompt"
  using assms by (subst trimPrompt.simps) (simp add: Let_def)

lemma trimPrompt_short:
  assumes "int (length prompt) \<le> MinChunkSize"
  shows "trimPrompt encode splitText prompt contextSize = Some prompt"
  using assms by (subst trimPrompt.simps) (auto simp: Let_def MinChunkSize_def)

lemma trimPrompt_fixed:
  assumes "trimPrompt encode splitText prompt contextSize = Some r"
  shows "trimPrompt encode splitText r contextSize = Some r"
proof (rule trimPrompt.raw_induct
    [where P = "\<lambda>e s p c y. trimPrompt e s y c = Some y", OF _ assms])
  fix f :: "(string \<Rightarrow> nat) \<Rightarrow> (int \<Rightarrow> string \<Rightarrow> string list) \<Rightarrow> string \<Rightarrow> int \<Rightarrow> string option"
  fix e s p c y
  assume IH: "\<And>e s p c y. f e s p c = Some y \<Longrightarrow> trimPrompt e s y c = Some y"
  assume body: "(if p = [] then Some []
      else
        let len = int (e p) in
        if len \<le> c then Some p
        else
          let overflowTokens = len - c;
              chunkSize = int (length p) - overflowTokens * 3
          in
          if chunkSize < MinChunkSize then Some (take (nat MinChunkSize) p)
          else
            let trimmedPrompt = first_chunk (s chunkSize p) in
            if length trimmedPrompt = length p
            then f e s (take (nat chunkSize) p) c
            else f e s trimmedPrompt c) = Some y"
  show "trimPrompt e s y c = Some y"
  proof (cases "p = []")
    case True
    with body have "y = []" by simp
    then show ?thesis by (simp add: trimPrompt_short MinChunkSize_def)
  next
    case ne: False
    show ?thesis
    proof (cases "int (e p) \<le> c")
      case True
      with ne body have "y = p" by (simp add: Let_def)
      with True show ?thesis by (simp add: trimPrompt_within_budget)
    next
      case over: False
      show ?thesis
      proof (cases "int (length p) - (int (e p) - c) * 3 < MinChunkSize")
        case True
        with ne over body have "y = take (nat MinChunkSize) p" by (simp add: Let_def)
        then have "int (length y) \<le> MinChunkSize" by (simp add: MinChunkSize_def)
        then show ?thesis by (rule trimPrompt_short)
      next
        case False
        with ne over body have
          "f e s (take (nat (int (length p) - (int (e p) - c) * 3)) p) c = Some y \<or>
           f e s (first_chunk (s (int (length p) - (int (e p) - c) * 3) p)) c = Some y"
          by (simp add: Let_def split: if_splits)
        then show ?thesis using IH by blast
      qed
    qed
  qed
qed


lemma raw_cut_within: "chunks_within raw_cut"
  by (auto simp: chunks_within_def raw_cut_def first_chunk_def)


text \<open>
  \<^bold>\<open>Claim C4.\<close> A non-empty text whose token count is within the budget comes back
  unchanged, for every encoder and every splitter.
\<close>

theorem trimPrompt_identity:
  assumes "prompt \<noteq> []" and "int (encode prompt) \<le> contextSize"
  shows "trimPrompt encode splitText prompt contextSize = Some prompt"
  using assms by (subst trimPrompt.simps) (simp add: Let_def)

theorem trimPrompt_identity_witness:
  "''deep research'' \<noteq> [] \<and> int (two_chars_per_token ''deep research'') \<le> 25000 \<and>
   trimPrompt two_chars_per_token raw_cut ''deep research'' 25000 = Some ''deep research''"
  using trimPrompt_identity [of "''deep research''" two_chars_per_token 25000 raw_cut]
  by (simp add: two_chars_per_token_def)

text \<open>
  \<^bold>\<open>Claim C5.\<close> \<^verbatim>\<open>trimPrompt\<close> returns on every text and every budget, and every
  recursive call it makes is on a strictly shorter text. The code compares the first chunk
  with the text for equal length only, so this rests on the splitter: its first chunk is
  never longer than the text it cuts (\<^const>\<open>chunks_within\<close>).
\<close>

theorem trimPrompt_terminates:
  assumes "chunks_within splitText"
  shows "(\<exists>r. trimPrompt encode splitText prompt contextSize = Some r) \<and>
         (\<forall>shorter. trimPrompt_step encode splitText prompt contextSize = Retry shorter \<longrightarrow>
            length shorter < length prompt)"
  using assms trimPrompt_returns step_retry_shorter by blast

theorem trimPrompt_terminates_witness:
  "chunks_within raw_cut \<and>
   (\<exists>r. trimPrompt two_chars_per_token raw_cut (replicate 400 CHR ''a'') 190 = Some r) \<and>
   trimPrompt_step two_chars_per_token raw_cut (replicate 400 CHR ''a'') 190
     = Retry (replicate 370 CHR ''a'') \<and>
   length (replicate 370 CHR ''a'') < length (replicate 400 CHR ''a'')"
proof -
  have step: "trimPrompt_step two_chars_per_token raw_cut (replicate 400 CHR ''a'') 190
      = Retry (replicate 370 CHR ''a'')"
    by (simp add: trimPrompt_step_def two_chars_per_token_def raw_cut_def first_chunk_def
        MinChunkSize_def Let_def)
  from trimPrompt_terminates [OF raw_cut_within, of two_chars_per_token "replicate 400 CHR ''a''" 190]
    raw_cut_within step
  show ?thesis by simp
qed

text \<open>
  \<^bold>\<open>Claim C6.\<close> Trimming the output of \<^verbatim>\<open>trimPrompt\<close> again, with the same budget,
  changes nothing: in the option monad \<open>trim (trim text) = trim text\<close>, for every encoder and
  splitter, and under \<^const>\<open>chunks_within\<close> both calls return.
\<close>

theorem trimPrompt_idempotent:
  "Option.bind (trimPrompt encode splitText prompt contextSize)
     (\<lambda>r. trimPrompt encode splitText r contextSize)
     = trimPrompt encode splitText prompt contextSize \<and>
   (chunks_within splitText \<longrightarrow>
      (\<exists>r. trimPrompt encode splitText prompt contextSize = Some r \<and>
           trimPrompt encode splitText r contextSize = Some r))"
proof
  show "Option.bind (trimPrompt encode splitText prompt contextSize)
     (\<lambda>r. trimPrompt encode splitText r contextSize)
     = trimPrompt encode splitText prompt contextSize"
    by (cases "trimPrompt encode splitText prompt contextSize") (simp_all add: trimPrompt_fixed)
  show "chunks_within splitText \<longrightarrow>
      (\<exists>r. trimPrompt encode splitText prompt contextSize = Some r \<and>
           trimPrompt encode splitText r contextSize = Some r)"
    using trimPrompt_returns trimPrompt_fixed by blast
qed

theorem trimPrompt_idempotent_witness:
  "chunks_within raw_cut \<and>
   trimPrompt two_chars_per_token raw_cut (replicate 400 CHR ''a'') 190
     = Some (replicate 370 CHR ''a'') \<and>
   trimPrompt two_chars_per_token raw_cut (replicate 370 CHR ''a'') 190
     = Some (replicate 370 CHR ''a'')"
proof -
  have first: "trimPrompt two_chars_per_token raw_cut (replicate 400 CHR ''a'') 190
     = Some (replicate 370 CHR ''a'')"
    by code_simp
  from trimPrompt_idempotent [of two_chars_per_token raw_cut "replicate 400 CHR ''a''" 190]
    raw_cut_within first
  show ?thesis by simp
qed




section \<open>Properties of the research orchestrator\<close>












text \<open>
  \<^bold>\<open>Claim C3.\<close> \<^verbatim>\<open>processSerpResult\<close> returns \<^verbatim>\<open>res.object.learnings\<close> as it is:
  asked for at most 3 learnings, it returns the four that the model answered with.
  (\<^verbatim>\<open>generateSerpQueries\<close> cuts its list with \<^verbatim>\<open>slice(0, numQueries)\<close>; this function
  does not.)
\<close>

theorem processSerpResult_unbounded:
  "processSerpResult verbose_env ''q'' [] 3 3
     = Inr \<lparr>new_learnings = [''a'', ''b'', ''c'', ''d''], followUpQuestions = []\<rparr> \<and>
   \<not> length (new_learnings (projr (processSerpResult verbose_env ''q'' [] 3 3))) \<le> 3"
  by code_simp



text \<open>
  \<^bold>\<open>Claim C9.\<close> A failure of the planner inside a recursive call is not turned into an
  empty branch: the branch returns the promise of the recursive call without awaiting it,
  so the rejection passes the \<^verbatim>\<open>catch\<close> block, rejects the branch and, through
  \<^verbatim>\<open>Promise.all\<close>, the whole call.
\<close>

theorem planning_failure_below_escapes:
  "branch planner_down_below_env 1 2 [] [] q_goal = Inl Rejected \<and>
   deepResearch planner_down_below_env ''root'' 1 2 [] [] = Inl Rejected"
  by code_simp


section \<open>Properties of the scheduling\<close>

















section \<open>Properties of the crawl command\<close>







end
